theory Spec2Isabelle
  imports Complex_Main "HOL-Library.Multiset"
begin

section \<open>The movie lookup engine (engine/movie.go)\<close>

text \<open>
  A shallow embedding of \<^verbatim>\<open>engine/movie.go\<close>: the three public operations
  \<^verbatim>\<open>SearchMovie\<close>, \<^verbatim>\<open>SearchMovieAll\<close> and \<^verbatim>\<open>GetMovieInfoByID\<close> and their private
  helpers. The database handle \<^verbatim>\<open>e.db\<close> is an explicit state (the stored rows) that every
  operation takes and returns; next to the rows the state keeps a trace of the calls
  made to providers and to the database, so that "the provider is not invoked" and "nothing
  is written back" are statements about the trace. Errors are values; the nil dereference
  of the ranking step is a third outcome next to a result and an error.
\<close>

subsection \<open>Data model\<close>

text \<open>
  Modelled from the spec: the package \<^verbatim>\<open>model\<close> is not among the sources. Section 3
  describes \<^verbatim>\<open>Info\<close> as keyed by (provider name, provider-local ID), with a user-facing
  number and descriptive fields, and \<^verbatim>\<open>SearchResult\<close> as its lightweight projection.
  One descriptive field stands for all of them.
\<close>

record MovieInfo =
  ID :: string
  Number :: string
  Provider :: string
  Title :: string

record MovieSearchResult =
  rID :: string
  rNumber :: string
  rProvider :: string
  rTitle :: string

text \<open>
  The errors of the file: the three sentinels of the provider package, the error built
  by \<^verbatim>\<open>fmt.Errorf\<close> (its formatted message), and any other error a provider returns.
\<close>

datatype error =
  ErrInvalidKeyword
| ErrInvalidID
| ErrNotFound
| Errorf string
| ProviderError string

text \<open>
  What a call of \<^verbatim>\<open>SearchMovieAll\<close> can do: return its results with a nil error, return
  an error, or panic (a method call on the nil provider that a missing registry key
  yields).
\<close>

datatype 'a outcome = Returns 'a | Fails error | Panics

text \<open>
  A provider (interface \<^verbatim>\<open>MovieProvider\<close>): its methods as fields. The optional interface
  \<^verbatim>\<open>MovieSearcher\<close>, which line 16 tests with a type assertion, is an optional field
  holding the \<^verbatim>\<open>SearchMovie\<close> method. \<^verbatim>\<open>Priority()\<close> is a number, which line 108 converts
  with \<^verbatim>\<open>float64(...)\<close>. The fetch returns an info or an error.
\<close>

record MovieProvider =
  Name :: string
  Priority :: real
  NormalizeID :: "string \<Rightarrow> string"
  MovieSearcher :: "(string \<Rightarrow> error + MovieSearchResult list) option"
  ProviderGetMovieInfoByID :: "string \<Rightarrow> error + MovieInfo"

text \<open>
  The trace: calls of provider capabilities (provider name and argument) and database
  statements. \<^verbatim>\<open>Name()\<close> and \<^verbatim>\<open>Priority()\<close>, plain getters, are not traced.
\<close>

datatype event =
  NormalizeIDCall string string
| SearchMovieCall string string
| GetMovieInfoByIDCall string string
| DbFirstByKeyword string string
| DbFirstByID string string
| DbFind string
| DbCreate MovieInfo

record world =
  rows :: "MovieInfo list"
  trace :: "event list"

text \<open>
  The engine: the provider registry \<^verbatim>\<open>e.movieProviders\<close>, a Go map, as an association
  list. Lookup is \<open>map_of\<close>; the order of the list is the order in which one run of the
  fan-out happens to range over the map and receive the answers, which Go leaves open, so
  a statement about every engine is a statement about every such order.

  The next fields are the parts this file uses and whose code is not among the sources:
  \<^verbatim>\<open>number.Trim\<close>, \<^verbatim>\<open>number.Similarity\<close>, the structural checks that \<^verbatim>\<open>Valid()\<close> makes
  beyond the non-empty ID and number, and which database statements end in an error.

  The last three are what the code takes from the language and from the database. A
  \<^verbatim>\<open>float64\<close> value is the real number it stands for (infinities and NaN are not part of
  this model), and its arithmetic rounds: \<open>toFloat64\<close> is the conversion \<^verbatim>\<open>float64(...)\<close>
  and \<open>mulFloat64\<close> the product \<^verbatim>\<open>*\<close> of two \<^verbatim>\<open>float64\<close> values, both as the machine
  computes them. Nothing is assumed of either, so what is proved holds for the rounded
  product, where two results whose exact products differ can have one weight. \<open>idBefore\<close>
  is the order of the database on IDs, which \<^verbatim>\<open>ORDER BY\<close> uses.
\<close>

record Engine =
  movieProviders :: "(string \<times> MovieProvider) list"
  Trim :: "string \<Rightarrow> string"
  Similarity :: "string \<Rightarrow> string \<Rightarrow> real"
  infoChecks :: "MovieInfo \<Rightarrow> bool"
  resultChecks :: "MovieSearchResult \<Rightarrow> bool"
  dbFails :: "event \<Rightarrow> bool"
  toFloat64 :: "real \<Rightarrow> real"
  mulFloat64 :: "real \<Rightarrow> real \<Rightarrow> real"
  idBefore :: "string \<Rightarrow> string \<Rightarrow> bool"

text \<open>
  Modelled from the spec: \<^verbatim>\<open>MovieInfo.Valid()\<close> is not among the sources. Section 3:
  it "holds only when both ID and number are non-empty and pass provider-agnostic
  structural checks".
\<close>

definition MovieInfo_Valid :: "Engine \<Rightarrow> MovieInfo \<Rightarrow> bool" where
  "MovieInfo_Valid e m = (ID m \<noteq> [] \<and> Number m \<noteq> [] \<and> infoChecks e m)"

text \<open>
  Modelled from the spec: \<^verbatim>\<open>MovieSearchResult.Valid()\<close> is not among the sources.
  Section 3: a result "is considered valid only if its identifying fields are non-empty
  and well-formed".
\<close>

definition MovieSearchResult_Valid :: "Engine \<Rightarrow> MovieSearchResult \<Rightarrow> bool" where
  "MovieSearchResult_Valid e r = (rID r \<noteq> [] \<and> rNumber r \<noteq> [] \<and> resultChecks e r)"

text \<open>
  Modelled from the spec: \<^verbatim>\<open>MovieInfo.ToSearchResult()\<close> is not among the sources.
  Section 3: the projection keeps the provider name, the identifiers and the display
  fields.
\<close>

definition ToSearchResult :: "MovieInfo \<Rightarrow> MovieSearchResult" where
  "ToSearchResult m =
     \<lparr>rID = ID m, rNumber = Number m, rProvider = Provider m, rTitle = Title m\<rparr>"

subsection \<open>The database\<close>

text \<open>SQL's \<^verbatim>\<open>UPPER\<close>, on ASCII letters.\<close>

definition upper_char :: "char \<Rightarrow> char" where
  "upper_char c =
     (if (97::nat) \<le> of_char c \<and> of_char c \<le> (122::nat)
      then char_of (of_char c - (32::nat)) else c)"

definition UPPER :: "string \<Rightarrow> string" where
  "UPPER s = map upper_char s"

definition emit :: "event \<Rightarrow> world \<Rightarrow> world" where
  "emit ev w = w\<lparr>trace := trace w @ [ev]\<rparr>"

text \<open>
  \<^verbatim>\<open>First\<close> adds \<^verbatim>\<open>ORDER BY\<close> the primary key and \<^verbatim>\<open>LIMIT 1\<close>: of the rows that match, it
  yields the one whose ID comes first in the order of the database (the rows of one query
  below are rows of one provider, so the key (provider, id) orders them by ID); of two
  rows with the same ID it keeps the one stored first.
\<close>

fun firstByID :: "(string \<Rightarrow> string \<Rightarrow> bool) \<Rightarrow> MovieInfo list \<Rightarrow> MovieInfo option" where
  "firstByID before [] = None"
| "firstByID before (r # rs) =
     (case firstByID before rs of
        None \<Rightarrow> Some r
      | Some m \<Rightarrow> if before (ID m) (ID r) then Some m else Some r)"

text \<open>
  Lines 19 to 26: \<^verbatim>\<open>Where provider = ? AND (UPPER(number) = UPPER(?) OR UPPER(id) =
  UPPER(?))\<close>, \<^verbatim>\<open>First\<close>. \<^verbatim>\<open>First\<close> reports a missing row as an error too, and the
  caller treats every error as a miss: both are \<open>None\<close>.
\<close>

definition dbFirstByKeyword :: "Engine \<Rightarrow> string \<Rightarrow> string \<Rightarrow> world \<Rightarrow> MovieInfo option" where
  "dbFirstByKeyword e pname keyword w =
     (if dbFails e (DbFirstByKeyword pname keyword) then None
      else firstByID (idBefore e)
             (filter (\<lambda>r. Provider r = pname \<and>
                 (UPPER (Number r) = UPPER keyword \<or> UPPER (ID r) = UPPER keyword)) (rows w)))"

text \<open>
  Lines 139 to 143: \<^verbatim>\<open>Where id = ? AND provider = ?\<close>, \<^verbatim>\<open>First\<close>. Every row that matches has
  the ID asked for, so the order by ID does not choose between them: the first match.
\<close>

definition dbFirstByID :: "Engine \<Rightarrow> string \<Rightarrow> string \<Rightarrow> world \<Rightarrow> MovieInfo option" where
  "dbFirstByID e mid pname w =
     (if dbFails e (DbFirstByID mid pname) then None
      else find (\<lambda>r. ID r = mid \<and> Provider r = pname) (rows w))"

text \<open>
  Lines 116 to 121: \<^verbatim>\<open>Where UPPER(number) = UPPER(?) OR UPPER(id) = UPPER(?)\<close>,
  \<^verbatim>\<open>Find\<close>: every matching row, in storage order; \<open>None\<close> is \<^verbatim>\<open>result.Error != nil\<close>.
\<close>

definition dbFind :: "Engine \<Rightarrow> string \<Rightarrow> world \<Rightarrow> MovieInfo list option" where
  "dbFind e keyword w =
     (if dbFails e (DbFind keyword) then None
      else Some (filter (\<lambda>r. UPPER (Number r) = UPPER keyword \<or> UPPER (ID r) = UPPER keyword)
                   (rows w)))"

text \<open>
  Lines 150 to 152: \<^verbatim>\<open>Clauses(OnConflict{UpdateAll: true}).Create(info)\<close>: insert, or
  overwrite the row with the same (provider, id). An error is ignored: nothing is stored.
\<close>

fun upsert :: "MovieInfo \<Rightarrow> MovieInfo list \<Rightarrow> MovieInfo list" where
  "upsert info [] = [info]"
| "upsert info (r # rs) =
     (if ID r = ID info \<and> Provider r = Provider info then info # rs else r # upsert info rs)"

definition dbCreate :: "Engine \<Rightarrow> MovieInfo \<Rightarrow> world \<Rightarrow> world" where
  "dbCreate e info w =
     (let w1 = emit (DbCreate info) w
      in if dbFails e (DbCreate info) then w1 else w1\<lparr>rows := upsert info (rows w1)\<rparr>)"

subsection \<open>getMovieInfoByID and GetMovieInfoByID (lines 133 to 164)\<close>

text \<open>
  Lines 147 to 155: the provider's fetch, and the deferred save, which runs after the
  provider has answered and stores the info only when \<^verbatim>\<open>err == nil && info.Valid()\<close>.
\<close>

definition fetchAndSave ::
  "Engine \<Rightarrow> string \<Rightarrow> MovieProvider \<Rightarrow> world \<Rightarrow> (error + MovieInfo) \<times> world" where
  "fetchAndSave e mid provider w =
     (let w1 = emit (GetMovieInfoByIDCall (Name provider) mid) w
      in case ProviderGetMovieInfoByID provider mid of
           Inl err \<Rightarrow> (Inl err, w1)
         | Inr info \<Rightarrow>
             (Inr info, if MovieInfo_Valid e info then dbCreate e info w1 else w1))"

definition getMovieInfoByID ::
  "Engine \<Rightarrow> string \<Rightarrow> MovieProvider \<Rightarrow> bool \<Rightarrow> world \<Rightarrow> (error + MovieInfo) \<times> world" where
  "getMovieInfoByID e mid provider lazy w =
     (let id' = NormalizeID provider mid;
          w1 = emit (NormalizeIDCall (Name provider) mid) w
      in if id' = [] then (Inl ErrInvalidID, w1)
         else if lazy then
           (let w2 = emit (DbFirstByID id' (Name provider)) w1
            in case dbFirstByID e id' (Name provider) w1 of
                 Some info \<Rightarrow>
                   if MovieInfo_Valid e info then (Inr info, w2)
                   else fetchAndSave e id' provider w2
               | None \<Rightarrow> fetchAndSave e id' provider w2)
         else fetchAndSave e id' provider w1)"

definition GetMovieInfoByID ::
  "Engine \<Rightarrow> string \<Rightarrow> string \<Rightarrow> bool \<Rightarrow> world \<Rightarrow> (error + MovieInfo) \<times> world" where
  "GetMovieInfoByID e mid name lazy w =
     (case map_of (movieProviders e) name of
        None \<Rightarrow> (Inl (Errorf (''provider not found: '' @ name)), w)
      | Some provider \<Rightarrow> getMovieInfoByID e mid provider lazy w)"

subsection \<open>searchMovie and SearchMovie (lines 14 to 49)\<close>

definition callSearcher ::
  "(string \<Rightarrow> error + MovieSearchResult list) \<Rightarrow> string \<Rightarrow> MovieProvider \<Rightarrow> world \<Rightarrow>
     (error + MovieSearchResult list) \<times> world" where
  "callSearcher search keyword provider w =
     (search keyword, emit (SearchMovieCall (Name provider) keyword) w)"

definition searchMovie ::
  "Engine \<Rightarrow> string \<Rightarrow> MovieProvider \<Rightarrow> bool \<Rightarrow> world \<Rightarrow>
     (error + MovieSearchResult list) \<times> world" where
  "searchMovie e keyword provider lazy w =
     (case MovieSearcher provider of
        Some search \<Rightarrow>
          if lazy then
            (let w1 = emit (DbFirstByKeyword (Name provider) keyword) w
             in case dbFirstByKeyword e (Name provider) keyword w of
                  Some info \<Rightarrow>
                    if MovieInfo_Valid e info then (Inr [ToSearchResult info], w1)
                    else callSearcher search keyword provider w1
                | None \<Rightarrow> callSearcher search keyword provider w1)
          else callSearcher search keyword provider w
      | None \<Rightarrow>
          (case getMovieInfoByID e keyword provider True w of
             (Inl err, w') \<Rightarrow> (Inl err, w')
           | (Inr info, w') \<Rightarrow> (Inr [ToSearchResult info], w')))"

definition SearchMovie ::
  "Engine \<Rightarrow> string \<Rightarrow> string \<Rightarrow> bool \<Rightarrow> world \<Rightarrow>
     (error + MovieSearchResult list) \<times> world" where
  "SearchMovie e keyword name lazy w =
     (let keyword' = Trim e keyword
      in if keyword' = [] then (Inl ErrInvalidKeyword, w)
         else case map_of (movieProviders e) name of
                None \<Rightarrow> (Inl (Errorf (''provider not found: '' @ name)), w)
              | Some provider \<Rightarrow> searchMovie e keyword' provider lazy w)"

subsection \<open>searchMovieAll (lines 51 to 85)\<close>

text \<open>
  One task per registered provider, each running \<^verbatim>\<open>searchMovie\<close> with \<^verbatim>\<open>lazy = false\<close>
  and sending its answer on the channel. The tasks are run to completion one after the
  other, in the order of the registry list, and answer in that order: what one task
  stores is visible to the tasks after it. (An interleaving of two tasks' database
  statements is not part of this model.)
\<close>

fun runTasks ::
  "Engine \<Rightarrow> string \<Rightarrow> MovieProvider list \<Rightarrow> world \<Rightarrow>
     (error + MovieSearchResult list) list \<times> world" where
  "runTasks e keyword [] w = ([], w)"
| "runTasks e keyword (provider # ps) w =
     (case searchMovie e keyword provider False w of
        (resp, w1) \<Rightarrow>
          (case runTasks e keyword ps w1 of (resps, w2) \<Rightarrow> (resp # resps, w2)))"

text \<open>
  Lines 78 to 83, the loop over the channel: \<open>results\<close> is the accumulator, an answer
  with an error is skipped.
\<close>

fun collect ::
  "MovieSearchResult list \<Rightarrow> (error + MovieSearchResult list) list \<Rightarrow> MovieSearchResult list" where
  "collect results [] = results"
| "collect results (Inl err # resps) = collect results resps"
| "collect results (Inr rs # resps) = collect (results @ rs) resps"

definition searchMovieAll ::
  "Engine \<Rightarrow> string \<Rightarrow> world \<Rightarrow> MovieSearchResult list \<times> world" where
  "searchMovieAll e keyword w =
     (case runTasks e keyword (map snd (movieProviders e)) w of
        (resps, w') \<Rightarrow> (collect [] resps, w'))"

subsection \<open>SearchMovieAll (lines 88 to 131)\<close>

text \<open>
  Modelled from the spec: \<^verbatim>\<open>priority.Slice\<close> is not among the sources. Section 4.2:
  \<^verbatim>\<open>Sort()\<close> orders the pairs by descending weight and keeps the append order among equal
  weights; \<^verbatim>\<open>Underlying()\<close> drops the weights.
\<close>

fun insertDesc :: "real \<times> 'a \<Rightarrow> (real \<times> 'a) list \<Rightarrow> (real \<times> 'a) list" where
  "insertDesc x [] = [x]"
| "insertDesc x (y # ys) = (if fst y < fst x then x # y # ys else y # insertDesc x ys)"

definition Sort :: "(real \<times> 'a) list \<Rightarrow> (real \<times> 'a) list" where
  "Sort ps = foldl (\<lambda>sorted x. insertDesc x sorted) [] ps"

definition Underlying :: "(real \<times> 'a) list \<Rightarrow> 'a list" where
  "Underlying ps = map snd ps"

text \<open>
  Lines 103 to 109, the loop of the post-processing: \<open>ps\<close> is the priority slice built so
  far. An invalid result is skipped before its provider is looked up; for a valid one
  \<^verbatim>\<open>e.movieProviders[result.Provider]\<close> is nil when the name is not a key of the map, and
  \<^verbatim>\<open>.Priority()\<close> on it panics: \<open>None\<close>. The weight of lines 107 and 108 is the \<^verbatim>\<open>float64\<close>
  product of the similarity and the converted priority.
\<close>

fun appendAll ::
  "Engine \<Rightarrow> string \<Rightarrow> (real \<times> MovieSearchResult) list \<Rightarrow> MovieSearchResult list \<Rightarrow>
     (real \<times> MovieSearchResult) list option" where
  "appendAll e keyword ps [] = Some ps"
| "appendAll e keyword ps (result # results) =
     (if \<not> MovieSearchResult_Valid e result then appendAll e keyword ps results
      else case map_of (movieProviders e) (rProvider result) of
             None \<Rightarrow> None
           | Some provider \<Rightarrow>
               appendAll e keyword
                 (ps @ [(mulFloat64 e (Similarity e keyword (rNumber result))
                           (toFloat64 e (Priority provider)), result)])
                 results)"

text \<open>
  Lines 93 to 112, the deferred function, which runs on every return after line 93 with
  the named results \<^verbatim>\<open>results\<close> and \<^verbatim>\<open>err\<close>.
\<close>

definition deferred ::
  "Engine \<Rightarrow> string \<Rightarrow> MovieSearchResult list \<Rightarrow> error option \<Rightarrow> MovieSearchResult list outcome" where
  "deferred e keyword results err =
     (case err of
        Some x \<Rightarrow> Fails x
      | None \<Rightarrow>
          (if results = [] then Fails ErrNotFound
           else (case appendAll e keyword [] results of
                   None \<Rightarrow> Panics
                 | Some ps \<Rightarrow> Returns (Underlying (Sort ps)))))"

definition SearchMovieAll ::
  "Engine \<Rightarrow> string \<Rightarrow> bool \<Rightarrow> world \<Rightarrow> MovieSearchResult list outcome \<times> world" where
  "SearchMovieAll e keyword lazy w =
     (let keyword' = Trim e keyword
      in if keyword' = [] then (Fails ErrInvalidKeyword, w)
         else if lazy then
           (let w1 = emit (DbFind keyword') w
            in case dbFind e keyword' w of
                 Some multiInfo \<Rightarrow>
                   if multiInfo \<noteq> [] then
                     (deferred e keyword' (map ToSearchResult multiInfo) None, w1)
                   else (case searchMovieAll e keyword' w1 of
                           (results, w2) \<Rightarrow> (deferred e keyword' results None, w2))
               | None \<Rightarrow>
                   (case searchMovieAll e keyword' w1 of
                      (results, w2) \<Rightarrow> (deferred e keyword' results None, w2)))
         else (case searchMovieAll e keyword' w of
                 (results, w2) \<Rightarrow> (deferred e keyword' results None, w2)))"

subsection \<open>The rank weight of the specification\<close>

text \<open>
  This definition follows the words of the specification, not the code (section 4.5,
  step 4): the rank weight of a result is \<^verbatim>\<open>Similarity(keyword, result.Number)\<close> times
  the priority of the result's provider, a \<^verbatim>\<open>float64\<close> product of \<^verbatim>\<open>float64\<close> values: the
  rounded product, not the exact one. It is compared below with what the loop of the
  post-processing appends. For a provider name that is not registered the specification
  gives no weight; the value 0 there is never used.
\<close>

definition spec_weight :: "Engine \<Rightarrow> string \<Rightarrow> MovieSearchResult \<Rightarrow> real" where
  "spec_weight e keyword r =
     (case map_of (movieProviders e) (rProvider r) of
        Some provider \<Rightarrow>
          mulFloat64 e (Similarity e keyword (rNumber r)) (toFloat64 e (Priority provider))
      | None \<Rightarrow> 0)"

subsection \<open>A concrete engine\<close>

text \<open>
  The inputs at which the theorems below are instantiated. \<open>trimSpaces\<close> strips blanks at
  both ends; \<open>exactSimilarity\<close> is 1 on a match up to case and 0 otherwise, and the
  priorities are small whole numbers, so the weights of this engine are products of 0, 1
  and 2, which \<^verbatim>\<open>float64\<close> computes without rounding. \<open>bytesBefore\<close> orders IDs byte by
  byte.
\<close>

fun bytesBefore :: "string \<Rightarrow> string \<Rightarrow> bool" where
  "bytesBefore [] [] = False"
| "bytesBefore [] (b # bs) = True"
| "bytesBefore (a # as) [] = False"
| "bytesBefore (a # as) (b # bs) =
     ((of_char a :: nat) < of_char b \<or> (a = b \<and> bytesBefore as bs))"

definition trimSpaces :: "string \<Rightarrow> string" where
  "trimSpaces s =
     rev (dropWhile (\<lambda>c. c = CHR '' '') (rev (dropWhile (\<lambda>c. c = CHR '' '') s)))"

definition exactSimilarity :: "string \<Rightarrow> string \<Rightarrow> real" where
  "exactSimilarity keyword n = (if UPPER keyword = UPPER n then 1 else 0)"

definition hitA :: MovieSearchResult where
  "hitA = \<lparr>rID = ''A-77'', rNumber = ''K-1'', rProvider = ''A'', rTitle = ''Kay''\<rparr>"

definition junk :: MovieSearchResult where
  "junk = \<lparr>rID = [], rNumber = ''K-1'', rProvider = ''J'', rTitle = ''Kay''\<rparr>"

definition goodInfo :: MovieInfo where
  "goodInfo = \<lparr>ID = ''F1'', Number = ''F-1'', Provider = ''F'', Title = ''Eff''\<rparr>"

definition badInfo :: MovieInfo where
  "badInfo = \<lparr>ID = ''BAD'', Number = [], Provider = ''F'', Title = ''Nameless''\<rparr>"

text \<open>Provider A searches by keyword and always finds \<open>hitA\<close>.\<close>

definition provA :: MovieProvider where
  "provA = \<lparr>Name = ''A'', Priority = 1, NormalizeID = (\<lambda>s. s),
     MovieSearcher = Some (\<lambda>keyword. Inr [hitA]),
     ProviderGetMovieInfoByID = (\<lambda>i. Inl ErrNotFound)\<rparr>"

text \<open>Provider B searches by keyword and always fails.\<close>

definition provB :: MovieProvider where
  "provB = \<lparr>Name = ''B'', Priority = 2, NormalizeID = (\<lambda>s. s),
     MovieSearcher = Some (\<lambda>keyword. Inl (ProviderError ''timeout'')),
     ProviderGetMovieInfoByID = (\<lambda>i. Inl (ProviderError ''timeout''))\<rparr>"

text \<open>
  Provider F cannot search by keyword. It fetches \<open>goodInfo\<close> for F1, the info without a
  number for BAD, and fails on every other ID.
\<close>

definition provF :: MovieProvider where
  "provF = \<lparr>Name = ''F'', Priority = 1, NormalizeID = (\<lambda>s. s),
     MovieSearcher = None,
     ProviderGetMovieInfoByID =
       (\<lambda>i. if i = ''F1'' then Inr goodInfo
            else if i = ''BAD'' then Inr badInfo
            else Inl (ProviderError ''no such movie''))\<rparr>"

text \<open>Provider J searches by keyword and finds only a result without an ID.\<close>

definition provJ :: MovieProvider where
  "provJ = \<lparr>Name = ''J'', Priority = 1, NormalizeID = (\<lambda>s. s),
     MovieSearcher = Some (\<lambda>keyword. Inr [junk]),
     ProviderGetMovieInfoByID = (\<lambda>i. Inl ErrNotFound)\<rparr>"

definition demoEngine :: Engine where
  "demoEngine = \<lparr>movieProviders = [(''A'', provA), (''B'', provB), (''F'', provF)],
     Trim = trimSpaces, Similarity = exactSimilarity,
     infoChecks = (\<lambda>m. True), resultChecks = (\<lambda>r. True), dbFails = (\<lambda>ev. False),
     toFloat64 = (\<lambda>x. x), mulFloat64 = (\<lambda>x y. x * y), idBefore = bytesBefore\<rparr>"

definition junkEngine :: Engine where
  "junkEngine = \<lparr>movieProviders = [(''J'', provJ)],
     Trim = trimSpaces, Similarity = exactSimilarity,
     infoChecks = (\<lambda>m. True), resultChecks = (\<lambda>r. True), dbFails = (\<lambda>ev. False),
     toFloat64 = (\<lambda>x. x), mulFloat64 = (\<lambda>x y. x * y), idBefore = bytesBefore\<rparr>"

definition emptyWorld :: world where
  "emptyWorld = \<lparr>rows = [], trace = []\<rparr>"

text \<open>A store that already holds \<open>goodInfo\<close>.\<close>

definition cachedWorld :: world where
  "cachedWorld = \<lparr>rows = [goodInfo], trace = []\<rparr>"

text \<open>
  A store with two rows that match the keyword K: the first by its ID, the second by its
  number.
\<close>

definition rowById :: MovieInfo where
  "rowById = \<lparr>ID = ''K'', Number = ''X-9'', Provider = ''A'', Title = ''First''\<rparr>"

definition rowByNumber :: MovieInfo where
  "rowByNumber = \<lparr>ID = ''Z'', Number = ''K'', Provider = ''A'', Title = ''Second''\<rparr>"

definition twoRowWorld :: world where
  "twoRowWorld = \<lparr>rows = [rowById, rowByNumber], trace = []\<rparr>"

text \<open>
  An engine whose product rounds, and coarsely, to make a tie visible: \<open>coarseMul\<close> rounds
  the exact product to the nearer of 0 and 1. \<open>prefixSimilarity\<close> is 1 on the keyword
  itself, 9/10 on a number that starts with it and 1/10 otherwise. The store has three
  rows with the ID K, of the providers A, B (priority 2) and F.
\<close>

definition coarseMul :: "real \<Rightarrow> real \<Rightarrow> real" where
  "coarseMul x y = (if x * y < 1 / 2 then 0 else 1)"

definition prefixSimilarity :: "string \<Rightarrow> string \<Rightarrow> real" where
  "prefixSimilarity keyword n =
     (if n = keyword then 1 else if take (length keyword) n = keyword then 9 / 10 else 1 / 10)"

definition tieEngine :: Engine where
  "tieEngine = \<lparr>movieProviders = [(''A'', provA), (''B'', provB), (''F'', provF)],
     Trim = trimSpaces, Similarity = prefixSimilarity,
     infoChecks = (\<lambda>m. True), resultChecks = (\<lambda>r. True), dbFails = (\<lambda>ev. False),
     toFloat64 = (\<lambda>x. x), mulFloat64 = coarseMul, idBefore = bytesBefore\<rparr>"

definition rowNear :: MovieInfo where
  "rowNear = \<lparr>ID = ''K'', Number = ''K-2'', Provider = ''A'', Title = ''Near''\<rparr>"

definition rowFar :: MovieInfo where
  "rowFar = \<lparr>ID = ''K'', Number = ''Z-9'', Provider = ''B'', Title = ''Far''\<rparr>"

definition rowExact :: MovieInfo where
  "rowExact = \<lparr>ID = ''K'', Number = ''K'', Provider = ''F'', Title = ''Exact''\<rparr>"

definition tieWorld :: world where
  "tieWorld = \<lparr>rows = [rowNear, rowFar, rowExact], trace = []\<rparr>"

text \<open>A store with a row of a provider that is not registered.\<close>

definition orphanRow :: MovieInfo where
  "orphanRow = \<lparr>ID = ''K'', Number = ''K-1'', Provider = ''GONE'', Title = ''Orphan''\<rparr>"

definition orphanWorld :: world where
  "orphanWorld = \<lparr>rows = [orphanRow], trace = []\<rparr>"

section \<open>Properties\<close>

subsection \<open>Invalid keywords and unknown providers\<close>

text \<open>
  Claim C9. When the trimmed keyword is empty, \<^verbatim>\<open>SearchMovie\<close> and \<^verbatim>\<open>SearchMovieAll\<close> both
  fail with \<^verbatim>\<open>ErrInvalidKeyword\<close>, and the state they return is the state they were given:
  no row has changed and the trace has no new event, so no provider capability was called
  and no database statement was issued.
\<close>

theorem empty_keyword_fails_untouched:
  assumes "Trim e keyword = []"
  shows "SearchMovie e keyword name lazy w = (Inl ErrInvalidKeyword, w) \<and>
         SearchMovieAll e keyword lazy w = (Fails ErrInvalidKeyword, w)"
  using assms by (simp add: SearchMovie_def SearchMovieAll_def)

theorem empty_keyword_fails_untouched_witness:
  "Trim demoEngine ''  '' = [] \<and>
   SearchMovie demoEngine ''  '' ''A'' True cachedWorld = (Inl ErrInvalidKeyword, cachedWorld) \<and>
   SearchMovieAll demoEngine ''  '' True cachedWorld = (Fails ErrInvalidKeyword, cachedWorld)"
proof -
  have blank: "Trim demoEngine ''  '' = []"
    by (simp add: demoEngine_def trimSpaces_def)
  from empty_keyword_fails_untouched [OF blank, of "''A''" True cachedWorld] blank
  show ?thesis by simp
qed

text \<open>
  Claim C10. For a name that is not a key of the registry, \<^verbatim>\<open>SearchMovie\<close> (when the
  trimmed keyword is not empty) and \<^verbatim>\<open>GetMovieInfoByID\<close> fail with the error
  \<^verbatim>\<open>provider not found: NAME\<close>. \<^verbatim>\<open>GetMovieInfoByID\<close> does so for every raw ID and leaves
  the state as it was: there is no \<^verbatim>\<open>NormalizeID\<close> call in the trace, and an ID that
  would not normalize does not turn the error into \<^verbatim>\<open>ErrInvalidID\<close>.
\<close>

theorem unknown_provider_not_found:
  assumes "map_of (movieProviders e) name = None"
  shows "(Trim e keyword \<noteq> [] \<longrightarrow>
            SearchMovie e keyword name lazy w =
              (Inl (Errorf (''provider not found: '' @ name)), w)) \<and>
         GetMovieInfoByID e rawID name lazy w =
           (Inl (Errorf (''provider not found: '' @ name)), w)"
  using assms by (simp add: SearchMovie_def GetMovieInfoByID_def)

theorem unknown_provider_not_found_witness:
  "map_of (movieProviders demoEngine) ''Q'' = None \<and>
   Trim demoEngine '' K-1 '' \<noteq> [] \<and>
   SearchMovie demoEngine '' K-1 '' ''Q'' True cachedWorld =
     (Inl (Errorf ''provider not found: Q''), cachedWorld) \<and>
   GetMovieInfoByID demoEngine [] ''Q'' True cachedWorld =
     (Inl (Errorf ''provider not found: Q''), cachedWorld)"
proof -
  have unknown: "map_of (movieProviders demoEngine) ''Q'' = None"
    by (simp add: demoEngine_def)
  have kw: "Trim demoEngine '' K-1 '' \<noteq> []"
    by (simp add: demoEngine_def trimSpaces_def)
  from unknown_provider_not_found [OF unknown, of "'' K-1 ''" True cachedWorld "[]"] unknown kw
  show ?thesis by simp
qed

subsection \<open>Fetching by ID\<close>

text \<open>\<^verbatim>\<open>First\<close> yields one of the rows that match, and none only when none matches.\<close>

lemma firstByID_member:
  "firstByID before rs = Some m \<Longrightarrow> m \<in> set rs"
  by (induction rs arbitrary: m) (auto split: option.splits if_splits)

lemma firstByID_None: "firstByID before rs = None \<longleftrightarrow> rs = []"
  by (cases rs) (auto split: option.splits)

text \<open>
  With (provider, id) a key of the store, the exact query finds the row that has the key.
\<close>

lemma find_unique_key:
  assumes "distinct (map key xs)" and "x \<in> set xs" and "\<And>r. P r = (key r = key x)"
  shows "find P xs = Some x"
  using assms(1,2)
proof (induction xs)
  case Nil
  then show ?case by simp
next
  case (Cons y ys)
  show ?case
  proof (cases "y = x")
    case True
    then show ?thesis by (simp add: assms(3))
  next
    case False
    with Cons.prems have mem: "x \<in> set ys" by simp
    from Cons.prems have "key y \<notin> key ` set ys" by simp
    with mem have "key y \<noteq> key x" by force
    with Cons.IH Cons.prems mem show ?thesis by (simp add: assms(3))
  qed
qed

lemma dbFirstByID_unique:
  assumes "\<not> dbFails e (DbFirstByID (ID info) (Provider info))"
    and "distinct (map (\<lambda>r. (Provider r, ID r)) (rows w))"
    and "info \<in> set (rows w)"
  shows "dbFirstByID e (ID info) (Provider info) w = Some info"
proof -
  have "find (\<lambda>r. ID r = ID info \<and> Provider r = Provider info) (rows w) = Some info"
    by (rule find_unique_key [OF assms(2) assms(3)]) auto
  with assms(1) show ?thesis by (simp add: dbFirstByID_def)
qed

text \<open>
  Claim C5. For a registered provider and a raw ID whose normalization is not empty,
  \<^verbatim>\<open>GetMovieInfoByID\<close> with \<^verbatim>\<open>lazy = true\<close> returns the valid row that the store holds under
  (provider, normalized ID), when the query does not end in a database error. The state
  returned has the same rows, and the trace gains the \<^verbatim>\<open>NormalizeID\<close> call and the query
  and nothing else: the provider's fetch is not called and nothing is written back.
\<close>

theorem lazy_fetch_served_from_cache:
  assumes "map_of (movieProviders e) name = Some provider"
    and "NormalizeID provider rawID = nid" and "nid \<noteq> []"
    and "\<not> dbFails e (DbFirstByID nid (Name provider))"
    and "distinct (map (\<lambda>r. (Provider r, ID r)) (rows w))"
    and "info \<in> set (rows w)" and "ID info = nid" and "Provider info = Name provider"
    and "MovieInfo_Valid e info"
  shows "GetMovieInfoByID e rawID name True w =
           (Inr info, w\<lparr>trace := trace w @ [NormalizeIDCall (Name provider) rawID,
                                            DbFirstByID nid (Name provider)]\<rparr>)"
proof -
  let ?w1 = "emit (NormalizeIDCall (Name provider) rawID) w"
  have "rows ?w1 = rows w" by (simp add: emit_def)
  with assms have "dbFirstByID e nid (Name provider) ?w1 = Some info"
    using dbFirstByID_unique [of e info ?w1] by simp
  with assms show ?thesis
    by (simp add: GetMovieInfoByID_def getMovieInfoByID_def emit_def)
qed

theorem lazy_fetch_served_from_cache_witness:
  "map_of (movieProviders demoEngine) ''F'' = Some provF \<and>
   NormalizeID provF ''F1'' = ''F1'' \<and>
   \<not> dbFails demoEngine (DbFirstByID ''F1'' (Name provF)) \<and>
   distinct (map (\<lambda>r. (Provider r, ID r)) (rows cachedWorld)) \<and>
   goodInfo \<in> set (rows cachedWorld) \<and> ID goodInfo = ''F1'' \<and>
   Provider goodInfo = Name provF \<and> MovieInfo_Valid demoEngine goodInfo \<and>
   GetMovieInfoByID demoEngine ''F1'' ''F'' True cachedWorld =
     (Inr goodInfo, cachedWorld\<lparr>trace := [NormalizeIDCall ''F'' ''F1'', DbFirstByID ''F1'' ''F'']\<rparr>)"
proof -
  have a: "map_of (movieProviders demoEngine) ''F'' = Some provF"
    by (simp add: demoEngine_def)
  have b: "NormalizeID provF ''F1'' = ''F1''" and c: "''F1'' \<noteq> []"
    by (simp_all add: provF_def)
  have d: "\<not> dbFails demoEngine (DbFirstByID ''F1'' (Name provF))"
    by (simp add: demoEngine_def)
  have f: "distinct (map (\<lambda>r. (Provider r, ID r)) (rows cachedWorld))"
    and g: "goodInfo \<in> set (rows cachedWorld)"
    by (simp_all add: cachedWorld_def)
  have h: "ID goodInfo = ''F1''" and i: "Provider goodInfo = Name provF"
    by (simp_all add: goodInfo_def provF_def)
  have j: "MovieInfo_Valid demoEngine goodInfo"
    by (simp add: MovieInfo_Valid_def goodInfo_def demoEngine_def)
  have n: "Name provF = ''F''" and t: "trace cachedWorld = []"
    by (simp_all add: provF_def cachedWorld_def)
  from lazy_fetch_served_from_cache [OF a b c d f g h i j] a b d f g h i j n t
  show ?thesis by simp
qed


lemma dbFirstByID_emit [simp]:
  "dbFirstByID e mid pname (emit ev w) = dbFirstByID e mid pname w"
  by (simp add: dbFirstByID_def emit_def)

text \<open>
  Claim C7. When the fetch of a registered provider fails on the normalized ID, and the
  call is not served from the cache, \<^verbatim>\<open>GetMovieInfoByID\<close> returns the provider's error as
  it is. The provider is called once, there is no \<^verbatim>\<open>Create\<close> in the trace, and the rows
  are those of the state before.
\<close>

theorem provider_fetch_error_propagates:
  assumes "map_of (movieProviders e) name = Some provider"
    and "NormalizeID provider rawID = nid" and "nid \<noteq> []"
    and "ProviderGetMovieInfoByID provider nid = Inl err"
    and "\<not> (lazy \<and> (\<exists>info. dbFirstByID e nid (Name provider) w = Some info \<and>
                              MovieInfo_Valid e info))"
  shows "GetMovieInfoByID e rawID name lazy w =
           (Inl err,
            w\<lparr>trace := trace w @ NormalizeIDCall (Name provider) rawID #
                  (if lazy then [DbFirstByID nid (Name provider)] else []) @
                  [GetMovieInfoByIDCall (Name provider) nid]\<rparr>)"
proof (cases lazy)
  case False
  with assms show ?thesis
    by (simp add: GetMovieInfoByID_def getMovieInfoByID_def fetchAndSave_def emit_def)
next
  case True
  show ?thesis
  proof (cases "dbFirstByID e nid (Name provider) w")
    case None
    with True assms show ?thesis
      by (simp add: GetMovieInfoByID_def getMovieInfoByID_def fetchAndSave_def)
         (simp add: emit_def)
  next
    case (Some info)
    with True assms(5) have "\<not> MovieInfo_Valid e info" by simp
    with Some True assms show ?thesis
      by (simp add: GetMovieInfoByID_def getMovieInfoByID_def fetchAndSave_def)
         (simp add: emit_def)
  qed
qed

theorem provider_fetch_error_propagates_witness:
  "map_of (movieProviders demoEngine) ''F'' = Some provF \<and>
   NormalizeID provF ''F2'' = ''F2'' \<and>
   ProviderGetMovieInfoByID provF ''F2'' = Inl (ProviderError ''no such movie'') \<and>
   dbFirstByID demoEngine ''F2'' (Name provF) cachedWorld = None \<and>
   GetMovieInfoByID demoEngine ''F2'' ''F'' True cachedWorld =
     (Inl (ProviderError ''no such movie''),
      cachedWorld\<lparr>trace := [NormalizeIDCall ''F'' ''F2'', DbFirstByID ''F2'' ''F'',
                            GetMovieInfoByIDCall ''F'' ''F2'']\<rparr>)"
proof -
  have a: "map_of (movieProviders demoEngine) ''F'' = Some provF"
    by (simp add: demoEngine_def)
  have b: "NormalizeID provF ''F2'' = ''F2''" and c: "''F2'' \<noteq> []"
    and d: "ProviderGetMovieInfoByID provF ''F2'' = Inl (ProviderError ''no such movie'')"
    by (simp_all add: provF_def)
  have m: "dbFirstByID demoEngine ''F2'' (Name provF) cachedWorld = None"
    by (simp add: dbFirstByID_def demoEngine_def cachedWorld_def goodInfo_def)
  then have f: "\<not> (True \<and> (\<exists>info. dbFirstByID demoEngine ''F2'' (Name provF) cachedWorld = Some info \<and>
                              MovieInfo_Valid demoEngine info))"
    by simp
  have n: "Name provF = ''F''" and t: "trace cachedWorld = []"
    by (simp_all add: provF_def cachedWorld_def)
  from provider_fetch_error_propagates [OF a b c d f] a b d m n t
  show ?thesis by simp
qed

text \<open>
  Claim C4. For a provider without keyword search, \<^verbatim>\<open>searchMovie\<close> is the fetch by ID with
  the lazy mode on, whatever flag it was given. So \<^verbatim>\<open>SearchMovie\<close> with \<^verbatim>\<open>lazy = false\<close>
  returns a valid cached row that matches the normalized keyword, and the trace shows the
  \<^verbatim>\<open>NormalizeID\<close> call and the query, and no call of the provider's fetch.
\<close>

theorem fallback_search_is_always_lazy:
  assumes "MovieSearcher provider = None"
  shows "searchMovie e keyword provider lazy w =
           apfst (map_sum (\<lambda>err. err) (\<lambda>info. [ToSearchResult info]))
             (getMovieInfoByID e keyword provider True w) \<and>
         (Trim e raw = keyword \<and> keyword \<noteq> [] \<and>
          map_of (movieProviders e) name = Some provider \<and>
          NormalizeID provider keyword = nid \<and> nid \<noteq> [] \<and>
          dbFirstByID e nid (Name provider) w = Some info \<and> MovieInfo_Valid e info \<longrightarrow>
          SearchMovie e raw name False w =
            (Inr [ToSearchResult info],
             w\<lparr>trace := trace w @ [NormalizeIDCall (Name provider) keyword,
                                  DbFirstByID nid (Name provider)]\<rparr>))"
proof -
  have eq: "searchMovie e keyword provider lazy w =
           apfst (map_sum (\<lambda>err. err) (\<lambda>info. [ToSearchResult info]))
             (getMovieInfoByID e keyword provider True w)" for lazy
    using assms by (simp add: searchMovie_def split: prod.splits sum.splits)
  show ?thesis
  proof (intro conjI impI)
    show "searchMovie e keyword provider lazy w =
           apfst (map_sum (\<lambda>err. err) (\<lambda>info. [ToSearchResult info]))
             (getMovieInfoByID e keyword provider True w)"
      by (rule eq)
  next
    assume h: "Trim e raw = keyword \<and> keyword \<noteq> [] \<and>
          map_of (movieProviders e) name = Some provider \<and>
          NormalizeID provider keyword = nid \<and> nid \<noteq> [] \<and>
          dbFirstByID e nid (Name provider) w = Some info \<and> MovieInfo_Valid e info"
    then have "getMovieInfoByID e keyword provider True w =
        (Inr info, w\<lparr>trace := trace w @ [NormalizeIDCall (Name provider) keyword,
                                  DbFirstByID nid (Name provider)]\<rparr>)"
      by (simp add: getMovieInfoByID_def) (simp add: emit_def)
    with h eq [of False] show "SearchMovie e raw name False w =
            (Inr [ToSearchResult info],
             w\<lparr>trace := trace w @ [NormalizeIDCall (Name provider) keyword,
                                  DbFirstByID nid (Name provider)]\<rparr>)"
      by (simp add: SearchMovie_def)
  qed
qed

theorem fallback_search_is_always_lazy_witness:
  "MovieSearcher provF = None \<and>
   Trim demoEngine '' F1 '' = ''F1'' \<and>
   map_of (movieProviders demoEngine) ''F'' = Some provF \<and>
   NormalizeID provF ''F1'' = ''F1'' \<and>
   dbFirstByID demoEngine ''F1'' (Name provF) cachedWorld = Some goodInfo \<and>
   MovieInfo_Valid demoEngine goodInfo \<and>
   SearchMovie demoEngine '' F1 '' ''F'' False cachedWorld =
     (Inr [ToSearchResult goodInfo],
      cachedWorld\<lparr>trace := [NormalizeIDCall ''F'' ''F1'', DbFirstByID ''F1'' ''F'']\<rparr>)"
proof -
  have a: "MovieSearcher provF = None"
    by (simp add: provF_def)
  have b: "Trim demoEngine '' F1 '' = ''F1''" and c: "''F1'' \<noteq> []"
    by (simp_all add: demoEngine_def trimSpaces_def)
  have d: "map_of (movieProviders demoEngine) ''F'' = Some provF"
    by (simp add: demoEngine_def)
  have f: "NormalizeID provF ''F1'' = ''F1''"
    by (simp add: provF_def)
  have g: "dbFirstByID demoEngine ''F1'' (Name provF) cachedWorld = Some goodInfo"
    by (simp add: dbFirstByID_def demoEngine_def cachedWorld_def goodInfo_def provF_def)
  have h: "MovieInfo_Valid demoEngine goodInfo"
    by (simp add: MovieInfo_Valid_def goodInfo_def demoEngine_def)
  have n: "Name provF = ''F''" and t: "trace cachedWorld = []"
    by (simp_all add: provF_def cachedWorld_def)
  from fallback_search_is_always_lazy [OF a, of demoEngine "''F1''" False cachedWorld
      "'' F1 ''" "''F''" "''F1''" goodInfo]
    a b c d f g h n t
  show ?thesis by simp
qed

subsection \<open>Ranking\<close>

text \<open>
  \<open>Sort\<close> yields the pairs in descending order of weight, neither loses nor duplicates a
  pair, and keeps the pairs of one weight in the order in which they were appended.
\<close>

lemma mset_insertDesc: "mset (insertDesc x ys) = add_mset x (mset ys)"
  by (induction ys) simp_all

lemma set_insertDesc: "set (insertDesc x ys) = insert x (set ys)"
  by (induction ys) auto

lemma descending_insertDesc:
  assumes "sorted_wrt (\<lambda>a b. fst b \<le> fst a) ys"
  shows "sorted_wrt (\<lambda>a b. fst b \<le> fst a) (insertDesc x ys)"
  using assms
proof (induction ys)
  case Nil
  then show ?case by simp
next
  case (Cons y ys)
  show ?case
  proof (cases "fst y < fst x")
    case True
    with Cons.prems show ?thesis by force
  next
    case False
    with Cons show ?thesis by (auto simp: set_insertDesc)
  qed
qed

lemma stable_insertDesc:
  assumes "sorted_wrt (\<lambda>a b. fst b \<le> fst a) ys"
  shows "filter (\<lambda>p. fst p = v) (insertDesc x ys) =
         filter (\<lambda>p. fst p = v) ys @ (if fst x = v then [x] else [])"
  using assms
proof (induction ys)
  case Nil
  then show ?case by simp
next
  case (Cons y ys)
  show ?case
  proof (cases "fst y < fst x")
    case True
    with Cons.prems have "\<forall>p\<in>set (y # ys). fst p \<noteq> fst x" by auto
    then have "fst x = v \<Longrightarrow> filter (\<lambda>p. fst p = v) (y # ys) = []"
      by (auto simp: filter_empty_conv)
    with True show ?thesis by auto
  next
    case False
    with Cons show ?thesis by simp
  qed
qed

lemma foldl_insertDesc:
  assumes "sorted_wrt (\<lambda>a b. fst b \<le> fst a) acc"
  shows "sorted_wrt (\<lambda>a b. fst b \<le> fst a) (foldl (\<lambda>sorted x. insertDesc x sorted) acc ps) \<and>
         mset (foldl (\<lambda>sorted x. insertDesc x sorted) acc ps) = mset acc + mset ps \<and>
         filter (\<lambda>p. fst p = v) (foldl (\<lambda>sorted x. insertDesc x sorted) acc ps) =
           filter (\<lambda>p. fst p = v) acc @ filter (\<lambda>p. fst p = v) ps"
  using assms
proof (induction ps arbitrary: acc)
  case Nil
  then show ?case by simp
next
  case (Cons p ps)
  from Cons.prems have "sorted_wrt (\<lambda>a b. fst b \<le> fst a) (insertDesc p acc)"
    by (rule descending_insertDesc)
  from Cons.IH [OF this] Cons.prems show ?case
    by (simp add: mset_insertDesc stable_insertDesc)
qed

lemma Sort_descending: "sorted_wrt (\<lambda>a b. fst b \<le> fst a) (Sort ps)"
  using foldl_insertDesc [of "[]" ps] by (simp add: Sort_def)

lemma Sort_mset: "mset (Sort ps) = mset ps"
  using foldl_insertDesc [of "[]" ps] by (simp add: Sort_def)

lemma Sort_stable: "filter (\<lambda>p. fst p = v) (Sort ps) = filter (\<lambda>p. fst p = v) ps"
  using foldl_insertDesc [of "[]" ps v] by (simp add: Sort_def)

text \<open>
  The loop of the post-processing: it appends the valid results with the weight of the
  specification when each of them names a registered provider, and panics as soon as one
  does not.
\<close>

lemma appendAll_registered:
  assumes "\<forall>r\<in>set rs. MovieSearchResult_Valid e r \<longrightarrow>
             map_of (movieProviders e) (rProvider r) \<noteq> None"
  shows "appendAll e k ps rs =
           Some (ps @ map (\<lambda>r. (spec_weight e k r, r)) (filter (MovieSearchResult_Valid e) rs))"
  using assms
proof (induction rs arbitrary: ps)
  case Nil
  then show ?case by simp
next
  case (Cons r rs)
  then show ?case by (auto simp: spec_weight_def)
qed

lemma appendAll_orphan:
  assumes "r \<in> set rs" and "MovieSearchResult_Valid e r"
    and "map_of (movieProviders e) (rProvider r) = None"
  shows "appendAll e k ps rs = None"
  using assms
proof (induction rs arbitrary: ps)
  case Nil
  then show ?case by simp
next
  case (Cons x rs)
  then show ?case by (auto split: option.splits)
qed

lemma appendAll_invalid:
  assumes "\<forall>r\<in>set rs. \<not> MovieSearchResult_Valid e r"
  shows "appendAll e k ps rs = Some ps"
  using assms by (induction rs arbitrary: ps) simp_all

text \<open>The loop over the channel keeps the successful answers, in order.\<close>

lemma collect_concat: "collect acc resps = acc @ concat [rs. Inr rs \<leftarrow> resps]"
proof (induction resps arbitrary: acc)
  case Nil
  then show ?case by simp
next
  case (Cons resp resps)
  then show ?case by (cases resp) simp_all
qed

text \<open>
  Sorting results that carry their own weight: the output is a rearrangement of the
  input, descending in the weight, with ties in input order.
\<close>

lemma Underlying_Sort_keyed:
  fixes f :: "'a \<Rightarrow> real"
  defines "ps \<equiv> \<lambda>xs. map (\<lambda>r. (f r, r)) xs"
  shows "mset (Underlying (Sort (ps xs))) = mset xs"
    and "sorted_wrt (\<lambda>a b. f b \<le> f a) (Underlying (Sort (ps xs)))"
    and "filter (\<lambda>r. f r = v) (Underlying (Sort (ps xs))) = filter (\<lambda>r. f r = v) xs"
proof -
  have "set (Sort (ps xs)) = set (ps xs)"
    using Sort_mset [of "ps xs"] by (metis set_mset_mset)
  then have keyed: "\<And>p. p \<in> set (Sort (ps xs)) \<Longrightarrow> fst p = f (snd p)"
    by (auto simp: ps_def)
  have "mset (Underlying (Sort (ps xs))) = image_mset snd (mset (ps xs))"
    by (simp add: Underlying_def Sort_mset)
  also have "\<dots> = mset xs"
    by (simp add: ps_def multiset.map_comp comp_def)
  finally show "mset (Underlying (Sort (ps xs))) = mset xs" .
  have "sorted_wrt (\<lambda>a b. f (snd b) \<le> f (snd a)) (Sort (ps xs))"
    by (rule sorted_wrt_mono_rel [OF _ Sort_descending]) (simp add: keyed)
  then show "sorted_wrt (\<lambda>a b. f b \<le> f a) (Underlying (Sort (ps xs)))"
    by (simp add: Underlying_def sorted_wrt_map)
  have "filter (\<lambda>r. f r = v) (Underlying (Sort (ps xs))) =
        map snd (filter (\<lambda>p. f (snd p) = v) (Sort (ps xs)))"
    by (simp add: Underlying_def filter_map comp_def)
  also have "filter (\<lambda>p. f (snd p) = v) (Sort (ps xs)) = filter (\<lambda>p. fst p = v) (Sort (ps xs))"
    by (rule filter_cong) (simp_all add: keyed)
  also have "\<dots> = filter (\<lambda>p. fst p = v) (ps xs)"
    by (rule Sort_stable)
  also have "map snd \<dots> = filter (\<lambda>r. f r = v) xs"
    by (simp add: ps_def filter_map comp_def)
  finally show "filter (\<lambda>r. f r = v) (Underlying (Sort (ps xs))) = filter (\<lambda>r. f r = v) xs" .
qed

subsection \<open>The deferred post-processing\<close>

lemma deferred_registered:
  assumes "results \<noteq> []"
    and "\<forall>r\<in>set results. MovieSearchResult_Valid e r \<longrightarrow>
           map_of (movieProviders e) (rProvider r) \<noteq> None"
  shows "deferred e k results None =
           Returns (Underlying (Sort (map (\<lambda>r. (spec_weight e k r, r))
                      (filter (MovieSearchResult_Valid e) results))))"
  using assms by (simp add: deferred_def appendAll_registered)

lemma deferred_all_invalid:
  assumes "results \<noteq> []" and "\<forall>r\<in>set results. \<not> MovieSearchResult_Valid e r"
  shows "deferred e k results None = Returns []"
  using assms by (simp add: deferred_def appendAll_invalid Sort_def Underlying_def)

lemma deferred_Fails:
  "deferred e k results None = Fails err \<longleftrightarrow> results = [] \<and> err = ErrNotFound"
  by (auto simp: deferred_def split: option.splits)

text \<open>
  Claim C1. The claim is that an empty list after post-processing is reported as
  \<^verbatim>\<open>ErrNotFound\<close>, also when every result a provider returned fails validation. The
  deferred function tests \<^verbatim>\<open>len(results) == 0\<close> before it filters (line 97), not after
  (line 111): with one registered provider whose search returns a single result without
  an ID, \<^verbatim>\<open>SearchMovieAll\<close> returns the empty list and a nil error.
\<close>

theorem all_invalid_results_returned_as_empty_list:
  "SearchMovieAll junkEngine ''K-1'' False emptyWorld =
     (Returns [], emptyWorld\<lparr>trace := [SearchMovieCall ''J'' ''K-1'']\<rparr>)"
proof -
  have kw: "Trim junkEngine ''K-1'' = ''K-1''"
    by (simp add: junkEngine_def trimSpaces_def)
  have run: "searchMovieAll junkEngine ''K-1'' emptyWorld =
     ([junk], emptyWorld\<lparr>trace := [SearchMovieCall ''J'' ''K-1'']\<rparr>)"
    by (simp add: searchMovieAll_def searchMovie_def callSearcher_def emit_def
        junkEngine_def provJ_def emptyWorld_def)
  have "\<not> MovieSearchResult_Valid junkEngine junk"
    by (simp add: MovieSearchResult_Valid_def junk_def)
  then have "deferred junkEngine ''K-1'' [junk] None = Returns []"
    using deferred_all_invalid [of "[junk]" junkEngine] by simp
  with kw run show ?thesis
    by (simp add: SearchMovieAll_def)
qed

text \<open>
  Claim C8. When the list that reaches the post-processing holds a valid result whose
  provider name is not a key of the registry, the deferred function panics: the lookup on
  line 108 is not guarded. The lazy path reaches it with the rows of the store, which are
  not filtered by registration: \<^verbatim>\<open>SearchMovieAll\<close> with \<^verbatim>\<open>lazy = true\<close> then panics after
  its query, with neither a result nor an error.
\<close>

theorem unregistered_provider_panics:
  assumes "r \<in> set results" and "MovieSearchResult_Valid e r"
    and "map_of (movieProviders e) (rProvider r) = None"
  shows "deferred e k results None = Panics \<and>
         (Trim e keyword = k \<and> k \<noteq> [] \<and> dbFind e k w = Some multiInfo \<and>
          map ToSearchResult multiInfo = results \<longrightarrow>
          SearchMovieAll e keyword True w = (Panics, w\<lparr>trace := trace w @ [DbFind k]\<rparr>))"
proof -
  from assms(1) have "results \<noteq> []" by auto
  with appendAll_orphan [OF assms, of k "[]"]
  have panic: "deferred e k results None = Panics"
    by (simp add: deferred_def)
  moreover have "SearchMovieAll e keyword True w = (Panics, w\<lparr>trace := trace w @ [DbFind k]\<rparr>)"
    if "Trim e keyword = k \<and> k \<noteq> [] \<and> dbFind e k w = Some multiInfo \<and>
          map ToSearchResult multiInfo = results"
  proof -
    from that \<open>results \<noteq> []\<close> have "multiInfo \<noteq> []" by auto
    with that panic show ?thesis
      by (simp add: SearchMovieAll_def emit_def)
  qed
  ultimately show ?thesis by blast
qed

theorem unregistered_provider_panics_witness:
  "ToSearchResult orphanRow \<in> set [ToSearchResult orphanRow] \<and>
   MovieSearchResult_Valid demoEngine (ToSearchResult orphanRow) \<and>
   map_of (movieProviders demoEngine) (rProvider (ToSearchResult orphanRow)) = None \<and>
   Trim demoEngine ''K'' = ''K'' \<and>
   dbFind demoEngine ''K'' orphanWorld = Some [orphanRow] \<and>
   SearchMovieAll demoEngine ''K'' True orphanWorld = (Panics, orphanWorld\<lparr>trace := [DbFind ''K'']\<rparr>)"
proof -
  have a: "ToSearchResult orphanRow \<in> set [ToSearchResult orphanRow]"
    by simp
  have b: "MovieSearchResult_Valid demoEngine (ToSearchResult orphanRow)"
    by (simp add: MovieSearchResult_Valid_def ToSearchResult_def orphanRow_def demoEngine_def)
  have c: "map_of (movieProviders demoEngine) (rProvider (ToSearchResult orphanRow)) = None"
    by (simp add: ToSearchResult_def orphanRow_def demoEngine_def)
  have d: "Trim demoEngine ''K'' = ''K''" and d': "''K'' \<noteq> []"
    by (simp_all add: demoEngine_def trimSpaces_def)
  have f: "dbFind demoEngine ''K'' orphanWorld = Some [orphanRow]"
    by (simp add: dbFind_def demoEngine_def orphanWorld_def orphanRow_def UPPER_def upper_char_def)
  have t: "trace orphanWorld = []"
    by (simp add: orphanWorld_def)
  from unregistered_provider_panics [OF a b c, of "''K''" "''K''" orphanWorld "[orphanRow]"]
    a b c d d' f t
  show ?thesis by simp
qed

subsection \<open>The lazy path of SearchMovieAll\<close>

text \<open>
  Claim C2, as stated, fails. The claim is that the rows found in the cache are returned in
  storage order, without the ranking step. The deferred function is registered on line
  93, before the lazy branch, and so runs on the return of line 125 as well. With two
  stored rows that match the keyword K, the first by its ID and the second by its number,
  the second has the higher similarity and is returned first.
\<close>

theorem lazy_cache_rows_not_in_storage_order:
  "dbFind demoEngine ''K'' twoRowWorld = Some [rowById, rowByNumber] \<and>
   fst (SearchMovieAll demoEngine ''K'' True twoRowWorld) =
     Returns [ToSearchResult rowByNumber, ToSearchResult rowById] \<and>
   fst (SearchMovieAll demoEngine ''K'' True twoRowWorld) \<noteq>
     Returns (map ToSearchResult [rowById, rowByNumber])"
proof -
  have kw: "Trim demoEngine ''K'' = ''K''"
    by (simp add: demoEngine_def trimSpaces_def)
  have found: "dbFind demoEngine ''K'' twoRowWorld = Some [rowById, rowByNumber]"
    by (simp add: dbFind_def demoEngine_def twoRowWorld_def rowById_def rowByNumber_def
        UPPER_def upper_char_def)
  have ranked: "deferred demoEngine ''K'' (map ToSearchResult [rowById, rowByNumber]) None =
      Returns [ToSearchResult rowByNumber, ToSearchResult rowById]"
    by (simp add: deferred_def MovieSearchResult_Valid_def ToSearchResult_def rowById_def
        rowByNumber_def demoEngine_def provA_def exactSimilarity_def UPPER_def upper_char_def
        Sort_def Underlying_def)
  have differ: "ToSearchResult rowByNumber \<noteq> ToSearchResult rowById"
    by (simp add: ToSearchResult_def rowById_def rowByNumber_def)
  from kw found ranked differ show ?thesis
    by (simp add: SearchMovieAll_def)
qed

text \<open>
  Claim C2, amended. With a non-empty trimmed keyword and \<^verbatim>\<open>lazy = true\<close>, when the cache
  query returns one or more rows, \<^verbatim>\<open>SearchMovieAll\<close> converts each row to a search result
  and calls no provider's search or fetch and writes nothing: the trace gains the query
  only. The converted rows then pass through the post-processing: those that fail
  validation are dropped, and the others are returned in descending order of the weight
  that the code computes, the \<^verbatim>\<open>float64\<close> product of similarity and priority, rows of
  equal weight in storage order. The weight is the rounded product: rows whose exact
  products differ and whose \<^verbatim>\<open>float64\<close> products are equal tie, and stay in storage order.
  (Each valid row is assumed to name a registered provider; C8 is the other case.)
\<close>

theorem lazy_cache_rows_are_ranked:
  assumes "Trim e keyword = k" and "k \<noteq> []"
    and "dbFind e k w = Some multiInfo" and "multiInfo \<noteq> []"
    and "\<forall>r\<in>set (map ToSearchResult multiInfo).
           MovieSearchResult_Valid e r \<longrightarrow> map_of (movieProviders e) (rProvider r) \<noteq> None"
  defines "valid \<equiv> filter (MovieSearchResult_Valid e) (map ToSearchResult multiInfo)"
  defines "ranked \<equiv> Underlying (Sort (map (\<lambda>r. (spec_weight e k r, r)) valid))"
  shows "SearchMovieAll e keyword True w = (Returns ranked, w\<lparr>trace := trace w @ [DbFind k]\<rparr>) \<and>
         mset ranked = mset valid \<and>
         sorted_wrt (\<lambda>a b. spec_weight e k b \<le> spec_weight e k a) ranked \<and>
         (\<forall>v. filter (\<lambda>r. spec_weight e k r = v) ranked =
              filter (\<lambda>r. spec_weight e k r = v) valid)"
proof -
  from assms(4) have "map ToSearchResult multiInfo \<noteq> []" by simp
  from deferred_registered [OF this assms(5)]
  have "deferred e k (map ToSearchResult multiInfo) None = Returns ranked"
    by (simp add: ranked_def valid_def)
  with assms(1-4)
  have "SearchMovieAll e keyword True w = (Returns ranked, w\<lparr>trace := trace w @ [DbFind k]\<rparr>)"
    by (simp add: SearchMovieAll_def emit_def)
  then show ?thesis
    unfolding ranked_def by (simp add: Underlying_Sort_keyed)
qed

text \<open>
  The amended claim at a product that rounds. In the store of \<open>tieWorld\<close> the exact
  products are 9/10 for the first row, 2/10 for the second and 1 for the third; the
  rounded weights are 1, 0 and 1. The second row moves to the end, and the first and the
  third, which tie only after rounding, stay in storage order.
\<close>

theorem lazy_cache_rows_are_ranked_witness:
  "Trim tieEngine ''K'' = ''K'' \<and>
   dbFind tieEngine ''K'' tieWorld = Some [rowNear, rowFar, rowExact] \<and>
   MovieSearchResult_Valid tieEngine (ToSearchResult rowNear) \<and>
   MovieSearchResult_Valid tieEngine (ToSearchResult rowFar) \<and>
   MovieSearchResult_Valid tieEngine (ToSearchResult rowExact) \<and>
   map_of (movieProviders tieEngine) (rProvider (ToSearchResult rowNear)) = Some provA \<and>
   map_of (movieProviders tieEngine) (rProvider (ToSearchResult rowFar)) = Some provB \<and>
   map_of (movieProviders tieEngine) (rProvider (ToSearchResult rowExact)) = Some provF \<and>
   SearchMovieAll tieEngine ''K'' True tieWorld =
     (Returns [ToSearchResult rowNear, ToSearchResult rowExact, ToSearchResult rowFar],
      tieWorld\<lparr>trace := [DbFind ''K'']\<rparr>) \<and>
   spec_weight tieEngine ''K'' (ToSearchResult rowNear) = 1 \<and>
   spec_weight tieEngine ''K'' (ToSearchResult rowFar) = 0 \<and>
   spec_weight tieEngine ''K'' (ToSearchResult rowExact) = 1 \<and>
   Similarity tieEngine ''K'' (Number rowNear) * Priority provA <
     Similarity tieEngine ''K'' (Number rowExact) * Priority provF"
proof -
  have kw: "Trim tieEngine ''K'' = ''K''" and ne: "''K'' \<noteq> []"
    by (simp_all add: tieEngine_def trimSpaces_def)
  have found: "dbFind tieEngine ''K'' tieWorld = Some [rowNear, rowFar, rowExact]"
    by (simp add: dbFind_def tieEngine_def tieWorld_def rowNear_def rowFar_def rowExact_def
        UPPER_def upper_char_def)
  have rows3: "[rowNear, rowFar, rowExact] \<noteq> []"
    by simp
  have v1: "MovieSearchResult_Valid tieEngine (ToSearchResult rowNear)"
    and v2: "MovieSearchResult_Valid tieEngine (ToSearchResult rowFar)"
    and v3: "MovieSearchResult_Valid tieEngine (ToSearchResult rowExact)"
    by (simp_all add: MovieSearchResult_Valid_def ToSearchResult_def rowNear_def rowFar_def
        rowExact_def tieEngine_def)
  have p1: "map_of (movieProviders tieEngine) (rProvider (ToSearchResult rowNear)) = Some provA"
    and p2: "map_of (movieProviders tieEngine) (rProvider (ToSearchResult rowFar)) = Some provB"
    and p3: "map_of (movieProviders tieEngine) (rProvider (ToSearchResult rowExact)) = Some provF"
    by (simp_all add: ToSearchResult_def rowNear_def rowFar_def rowExact_def tieEngine_def)
  then have reg: "\<forall>r\<in>set (map ToSearchResult [rowNear, rowFar, rowExact]).
      MovieSearchResult_Valid tieEngine r \<longrightarrow>
      map_of (movieProviders tieEngine) (rProvider r) \<noteq> None"
    by simp
  have sims: "Similarity tieEngine ''K'' (Number rowNear) = 9 / 10"
    "Similarity tieEngine ''K'' (Number rowFar) = 1 / 10"
    "Similarity tieEngine ''K'' (Number rowExact) = 1"
    by (simp_all add: tieEngine_def prefixSimilarity_def rowNear_def rowFar_def rowExact_def)
  have prios: "Priority provA = 1" "Priority provB = 2" "Priority provF = 1"
    by (simp_all add: provA_def provB_def provF_def)
  have ops: "toFloat64 tieEngine = (\<lambda>x. x)" "mulFloat64 tieEngine = coarseMul"
    by (simp_all add: tieEngine_def)
  have nums: "rNumber (ToSearchResult rowNear) = Number rowNear"
    "rNumber (ToSearchResult rowFar) = Number rowFar"
    "rNumber (ToSearchResult rowExact) = Number rowExact"
    by (simp_all add: ToSearchResult_def)
  have w1: "spec_weight tieEngine ''K'' (ToSearchResult rowNear) = 1"
    and w2: "spec_weight tieEngine ''K'' (ToSearchResult rowFar) = 0"
    and w3: "spec_weight tieEngine ''K'' (ToSearchResult rowExact) = 1"
    by (simp_all add: spec_weight_def p1 p2 p3 nums sims prios ops coarseMul_def)
  have exact: "Similarity tieEngine ''K'' (Number rowNear) * Priority provA <
     Similarity tieEngine ''K'' (Number rowExact) * Priority provF"
    by (simp add: sims prios)
  have t: "trace tieWorld = []"
    by (simp add: tieWorld_def)
  have "SearchMovieAll tieEngine ''K'' True tieWorld =
     (Returns [ToSearchResult rowNear, ToSearchResult rowExact, ToSearchResult rowFar],
      tieWorld\<lparr>trace := [DbFind ''K'']\<rparr>)"
    using lazy_cache_rows_are_ranked [OF kw ne found rows3 reg] v1 v2 v3 w1 w2 w3 t
    by (simp add: Sort_def Underlying_def)
  with kw found v1 v2 v3 p1 p2 p3 w1 w2 w3 exact show ?thesis by simp
qed

subsection \<open>The fan-out\<close>

text \<open>Each answer on the channel is the answer of \<^verbatim>\<open>searchMovie\<close> for one provider.\<close>

lemma runTasks_answers:
  assumes "runTasks e k ps w = (resps, w')"
  shows "list_all2 (\<lambda>provider resp. \<exists>w0. resp = fst (searchMovie e k provider False w0)) ps resps"
  using assms
proof (induction ps arbitrary: w resps w')
  case Nil
  then show ?case by simp
next
  case (Cons provider ps)
  obtain resp w1 where one: "searchMovie e k provider False w = (resp, w1)"
    by (cases "searchMovie e k provider False w")
  obtain rest w2 where more: "runTasks e k ps w1 = (rest, w2)"
    by (cases "runTasks e k ps w1")
  from Cons.prems one more have "resps = resp # rest" by auto
  moreover from one have "\<exists>w0. resp = fst (searchMovie e k provider False w0)"
    by (metis fst_conv)
  ultimately show ?case using Cons.IH [OF more] by simp
qed

text \<open>
  Claim C6. With \<^verbatim>\<open>lazy = false\<close>, the list that reaches the post-processing is the
  concatenation of the result lists of the providers whose search succeeded: an answer
  with an error adds nothing. \<^verbatim>\<open>SearchMovieAll\<close> is the post-processing of that list, so
  an error of some provider does not make it fail: it fails exactly when that list is
  empty, with \<^verbatim>\<open>ErrNotFound\<close>, and then nothing is left after filtering either.
\<close>

theorem failed_providers_contribute_nothing:
  assumes "Trim e keyword = k" and "k \<noteq> []"
    and "runTasks e k (map snd (movieProviders e)) w = (resps, w')"
  defines "merged \<equiv> concat [rs. Inr rs \<leftarrow> resps]"
  shows "list_all2 (\<lambda>provider resp. \<exists>w0. resp = fst (searchMovie e k provider False w0))
           (map snd (movieProviders e)) resps \<and>
         searchMovieAll e k w = (merged, w') \<and>
         SearchMovieAll e keyword False w = (deferred e k merged None, w') \<and>
         (fst (SearchMovieAll e keyword False w) = Fails ErrNotFound \<longleftrightarrow> merged = []) \<and>
         (\<forall>err. fst (SearchMovieAll e keyword False w) = Fails err \<longrightarrow>
                err = ErrNotFound \<and> filter (MovieSearchResult_Valid e) merged = [])"
proof -
  from assms(3) have all: "searchMovieAll e k w = (merged, w')"
    by (simp add: searchMovieAll_def collect_concat merged_def)
  with assms(1,2) have top: "SearchMovieAll e keyword False w = (deferred e k merged None, w')"
    by (simp add: SearchMovieAll_def)
  have "fst (SearchMovieAll e keyword False w) = Fails err \<longleftrightarrow> merged = [] \<and> err = ErrNotFound"
    for err
    by (simp add: top deferred_Fails)
  with all top runTasks_answers [OF assms(3)] show ?thesis by simp
qed

theorem failed_providers_contribute_nothing_witness:
  "Trim demoEngine ''K-1'' = ''K-1'' \<and>
   fst (runTasks demoEngine ''K-1'' (map snd (movieProviders demoEngine)) emptyWorld) =
     [Inr [hitA], Inl (ProviderError ''timeout''), Inl (ProviderError ''no such movie'')] \<and>
   fst (searchMovieAll demoEngine ''K-1'' emptyWorld) = [hitA] \<and>
   fst (SearchMovieAll demoEngine ''K-1'' False emptyWorld) = Returns [hitA]"
proof -
  have kw: "Trim demoEngine ''K-1'' = ''K-1''" and ne: "''K-1'' \<noteq> []"
    by (simp_all add: demoEngine_def trimSpaces_def)
  define w' where "w' = snd (runTasks demoEngine ''K-1'' (map snd (movieProviders demoEngine)) emptyWorld)"
  have a: "searchMovie demoEngine ''K-1'' provA False w = (Inr [hitA], emit (SearchMovieCall ''A'' ''K-1'') w)" for w
    by (simp add: searchMovie_def callSearcher_def provA_def)
  have b: "searchMovie demoEngine ''K-1'' provB False w =
      (Inl (ProviderError ''timeout''), emit (SearchMovieCall ''B'' ''K-1'') w)" for w
    by (simp add: searchMovie_def callSearcher_def provB_def)
  have f: "searchMovie demoEngine ''K-1'' provF False w =
      (Inl (ProviderError ''no such movie''),
       w\<lparr>trace := trace w @ [NormalizeIDCall ''F'' ''K-1'', DbFirstByID ''K-1'' ''F'',
                            GetMovieInfoByIDCall ''F'' ''K-1'']\<rparr>)"
    if "rows w = []" for w
    using that
    by (simp add: searchMovie_def getMovieInfoByID_def fetchAndSave_def dbFirstByID_def provF_def
        demoEngine_def emit_def Let_def)
  have ps: "map snd (movieProviders demoEngine) = [provA, provB, provF]"
    by (simp add: demoEngine_def)
  have "fst (runTasks demoEngine ''K-1'' [provA, provB, provF] emptyWorld) =
     [Inr [hitA], Inl (ProviderError ''timeout''), Inl (ProviderError ''no such movie'')]"
    by (simp add: a b f emit_def emptyWorld_def)
  then have run: "runTasks demoEngine ''K-1'' (map snd (movieProviders demoEngine)) emptyWorld =
     ([Inr [hitA], Inl (ProviderError ''timeout''), Inl (ProviderError ''no such movie'')], w')"
    by (simp add: w'_def ps prod_eq_iff)
  have rank: "deferred demoEngine ''K-1'' [hitA] None = Returns [hitA]"
    by (simp add: deferred_def MovieSearchResult_Valid_def hitA_def demoEngine_def
        Sort_def Underlying_def)
  from failed_providers_contribute_nothing [OF kw ne run] kw run rank
  show ?thesis by simp
qed

subsection \<open>Validation\<close>

text \<open>
  What the store gains: every statement that writes is the deferred save of
  \<^verbatim>\<open>getMovieInfoByID\<close>, which is guarded by \<^verbatim>\<open>info.Valid()\<close>. So a row of the store after an
  operation is a row of the store before it, or valid.
\<close>

lemma set_upsert: "set (upsert info rs) \<subseteq> insert info (set rs)"
  by (induction rs) auto

lemma dbCreate_rows:
  assumes "MovieInfo_Valid e info" and "i \<in> set (rows (dbCreate e info w))"
  shows "i \<in> set (rows w) \<or> MovieInfo_Valid e i"
  using assms set_upsert [of info "rows w"]
  by (auto simp: dbCreate_def emit_def Let_def split: if_splits)

lemma fetchAndSave_rows:
  assumes "i \<in> set (rows (snd (fetchAndSave e mid provider w)))"
  shows "i \<in> set (rows w) \<or> MovieInfo_Valid e i"
proof (cases "ProviderGetMovieInfoByID provider mid")
  case (Inl err)
  with assms show ?thesis
    by (simp add: fetchAndSave_def emit_def)
next
  case (Inr info)
  show ?thesis
  proof (cases "MovieInfo_Valid e info")
    case True
    with Inr assms
    have "i \<in> set (rows (dbCreate e info (emit (GetMovieInfoByIDCall (Name provider) mid) w)))"
      by (simp add: fetchAndSave_def)
    from dbCreate_rows [OF True this] show ?thesis
      by (simp add: emit_def)
  next
    case False
    with Inr assms show ?thesis
      by (simp add: fetchAndSave_def emit_def)
  qed
qed

lemma getMovieInfoByID_rows:
  assumes "i \<in> set (rows (snd (getMovieInfoByID e mid provider lazy w)))"
  shows "i \<in> set (rows w) \<or> MovieInfo_Valid e i"
proof -
  have step: "i \<in> set (rows (snd (fetchAndSave e m provider (emit ev w0)))) \<Longrightarrow>
      rows w0 = rows w \<Longrightarrow> i \<in> set (rows w) \<or> MovieInfo_Valid e i" for m ev w0
    using fetchAndSave_rows [of i e m provider "emit ev w0"] by (simp add: emit_def)
  have r: "rows (emit ev w0) = rows w0" for ev w0
    by (simp add: emit_def)
  from assms show ?thesis
    by (auto simp: getMovieInfoByID_def Let_def r split: if_splits option.splits dest!: step)
qed

lemma searchMovie_rows:
  assumes "i \<in> set (rows (snd (searchMovie e keyword provider lazy w)))"
  shows "i \<in> set (rows w) \<or> MovieInfo_Valid e i"
proof (cases "MovieSearcher provider")
  case None
  with assms have "i \<in> set (rows (snd (getMovieInfoByID e keyword provider True w)))"
    by (auto simp: searchMovie_def split: prod.splits sum.splits)
  then show ?thesis by (rule getMovieInfoByID_rows)
next
  case (Some search)
  with assms show ?thesis
    by (auto simp: searchMovie_def callSearcher_def emit_def Let_def
        split: if_splits option.splits)
qed

lemma runTasks_rows:
  assumes "i \<in> set (rows (snd (runTasks e keyword ps w)))"
  shows "i \<in> set (rows w) \<or> MovieInfo_Valid e i"
  using assms
proof (induction ps arbitrary: w)
  case Nil
  then show ?case by simp
next
  case (Cons provider ps)
  obtain resp w1 where one: "searchMovie e keyword provider False w = (resp, w1)"
    by (cases "searchMovie e keyword provider False w")
  with Cons.prems have "i \<in> set (rows (snd (runTasks e keyword ps w1)))"
    by (simp split: prod.splits)
  from Cons.IH [OF this] have "i \<in> set (rows w1) \<or> MovieInfo_Valid e i" .
  with searchMovie_rows [of i e keyword provider False w] one show ?case
    by auto
qed

lemma searchMovieAll_rows:
  assumes "i \<in> set (rows (snd (searchMovieAll e keyword w)))"
  shows "i \<in> set (rows w) \<or> MovieInfo_Valid e i"
  using assms runTasks_rows [of i e keyword "map snd (movieProviders e)" w]
  by (simp add: searchMovieAll_def split: prod.splits)

lemma SearchMovieAll_rows:
  assumes "i \<in> set (rows (snd (SearchMovieAll e keyword lazy w)))"
  shows "i \<in> set (rows w) \<or> MovieInfo_Valid e i"
proof -
  define k where "k = Trim e keyword"
  define w1 where "w1 = emit (DbFind k) w"
  have same: "rows w1 = rows w"
    by (simp add: w1_def emit_def)
  have "snd (SearchMovieAll e keyword lazy w) = w \<or>
        snd (SearchMovieAll e keyword lazy w) = w1 \<or>
        snd (SearchMovieAll e keyword lazy w) = snd (searchMovieAll e k w) \<or>
        snd (SearchMovieAll e keyword lazy w) = snd (searchMovieAll e k w1)"
    by (simp add: SearchMovieAll_def Let_def k_def w1_def split: option.splits prod.splits)
  then consider "i \<in> set (rows w)" | "i \<in> set (rows w1)"
    | "i \<in> set (rows (snd (searchMovieAll e k w)))"
    | "i \<in> set (rows (snd (searchMovieAll e k w1)))"
    using assms by auto
  then show ?thesis
  proof cases
    case 1
    then show ?thesis by simp
  next
    case 2
    with same show ?thesis by simp
  next
    case 3
    then show ?thesis by (rule searchMovieAll_rows)
  next
    case 4
    from searchMovieAll_rows [OF this] same show ?thesis by simp
  qed
qed

text \<open>What the post-processing lets through: valid results only.\<close>

lemma appendAll_valid:
  assumes "appendAll e k ps rs = Some qs" and "q \<in> set qs"
  shows "q \<in> set ps \<or> MovieSearchResult_Valid e (snd q)"
  using assms
proof (induction rs arbitrary: ps)
  case Nil
  then show ?case by simp
next
  case (Cons r rs)
  then show ?case
    by (fastforce split: if_splits option.splits)
qed

lemma deferred_valid:
  assumes "deferred e k results err = Returns rs" and "r \<in> set rs"
  shows "MovieSearchResult_Valid e r"
proof -
  from assms(1) obtain qs where qs: "appendAll e k [] results = Some qs"
    and rs: "rs = Underlying (Sort qs)"
    by (auto simp: deferred_def split: option.splits if_splits)
  have "set (Sort qs) = set qs"
    using Sort_mset [of qs] by (metis set_mset_mset)
  with assms(2) rs obtain q where "q \<in> set qs" and "r = snd q"
    by (auto simp: Underlying_def)
  with appendAll_valid [OF qs] show ?thesis by auto
qed

lemma SearchMovieAll_valid:
  assumes "fst (SearchMovieAll e keyword lazy w) = Returns rs" and "r \<in> set rs"
  shows "MovieSearchResult_Valid e r"
proof -
  from assms(1) obtain k results err where "deferred e k results err = Returns rs"
    by (auto simp: SearchMovieAll_def Let_def split: if_splits option.splits prod.splits)
  from deferred_valid [OF this assms(2)] show ?thesis .
qed

text \<open>
  Claim C3, as stated, fails. The claim is that an info fetched from a provider with an
  empty ID or number never appears in a result of \<^verbatim>\<open>GetMovieInfoByID\<close>, \<^verbatim>\<open>SearchMovie\<close> or
  \<^verbatim>\<open>SearchMovieAll\<close>. Line 155 returns what the provider returned; \<^verbatim>\<open>info.Valid()\<close> on
  line 149 guards the save only. Provider F answers the ID BAD with an info that has no
  number: \<^verbatim>\<open>GetMovieInfoByID\<close> returns it, and \<^verbatim>\<open>SearchMovie\<close> returns its projection.
\<close>

theorem invalid_info_returned_by_GetMovieInfoByID:
  "ProviderGetMovieInfoByID provF ''BAD'' = Inr badInfo \<and>
   Number badInfo = [] \<and>
   \<not> MovieInfo_Valid demoEngine badInfo \<and>
   fst (GetMovieInfoByID demoEngine ''BAD'' ''F'' False emptyWorld) = Inr badInfo \<and>
   fst (SearchMovie demoEngine ''BAD'' ''F'' False emptyWorld) = Inr [ToSearchResult badInfo]"
proof -
  have p: "map_of (movieProviders demoEngine) ''F'' = Some provF"
    by (simp add: demoEngine_def)
  have kw: "Trim demoEngine ''BAD'' = ''BAD''"
    by (simp add: demoEngine_def trimSpaces_def)
  have f: "ProviderGetMovieInfoByID provF ''BAD'' = Inr badInfo"
    and n: "NormalizeID provF ''BAD'' = ''BAD''" and s: "MovieSearcher provF = None"
    by (simp_all add: provF_def)
  have b: "Number badInfo = []" and v: "\<not> MovieInfo_Valid demoEngine badInfo"
    by (simp_all add: badInfo_def MovieInfo_Valid_def)
  have cache: "dbFirstByID demoEngine ''BAD'' (Name provF) w = None" if "rows w = []" for w
    using that by (simp add: dbFirstByID_def)
  have g: "fst (getMovieInfoByID demoEngine ''BAD'' provF lazy emptyWorld) = Inr badInfo" for lazy
    by (simp add: getMovieInfoByID_def fetchAndSave_def f n v cache emit_def emptyWorld_def Let_def)
  have "fst (searchMovie demoEngine ''BAD'' provF False emptyWorld) = Inr [ToSearchResult badInfo]"
    using g [of True] s
    by (cases "getMovieInfoByID demoEngine ''BAD'' provF True emptyWorld")
       (simp add: searchMovie_def)
  with p kw f b v g [of False] show ?thesis
    by (simp add: GetMovieInfoByID_def SearchMovie_def)
qed

text \<open>
  Claim C3, amended. An info fetched from a provider whose ID or number is empty is never
  upserted into the store: after \<^verbatim>\<open>GetMovieInfoByID\<close>, \<^verbatim>\<open>SearchMovie\<close> or \<^verbatim>\<open>SearchMovieAll\<close>,
  every row of the store is a row it had before or is valid. And the projection of such
  an info never appears in a result list that \<^verbatim>\<open>SearchMovieAll\<close> returns.
\<close>

theorem invalid_info_never_stored:
  "(\<forall>i\<in>set (rows (snd (GetMovieInfoByID e mid name lazy w))).
       i \<in> set (rows w) \<or> MovieInfo_Valid e i) \<and>
   (\<forall>i\<in>set (rows (snd (SearchMovie e keyword name lazy w))).
       i \<in> set (rows w) \<or> MovieInfo_Valid e i) \<and>
   (\<forall>i\<in>set (rows (snd (SearchMovieAll e keyword lazy w))).
       i \<in> set (rows w) \<or> MovieInfo_Valid e i) \<and>
   (\<forall>rs (info :: MovieInfo). fst (SearchMovieAll e keyword lazy w) = Returns rs \<and>
       (ID info = [] \<or> Number info = []) \<longrightarrow> ToSearchResult info \<notin> set rs)"
proof (intro conjI ballI allI impI)
  fix i assume "i \<in> set (rows (snd (GetMovieInfoByID e mid name lazy w)))"
  then show "i \<in> set (rows w) \<or> MovieInfo_Valid e i"
    by (auto simp: GetMovieInfoByID_def split: option.splits dest: getMovieInfoByID_rows)
next
  fix i assume "i \<in> set (rows (snd (SearchMovie e keyword name lazy w)))"
  then show "i \<in> set (rows w) \<or> MovieInfo_Valid e i"
    by (auto simp: SearchMovie_def Let_def split: if_splits option.splits dest: searchMovie_rows)
next
  fix i assume "i \<in> set (rows (snd (SearchMovieAll e keyword lazy w)))"
  then show "i \<in> set (rows w) \<or> MovieInfo_Valid e i"
    by (rule SearchMovieAll_rows)
next
  fix rs and info :: MovieInfo
  assume h: "fst (SearchMovieAll e keyword lazy w) = Returns rs \<and>
       (ID info = [] \<or> Number info = [])"
  show "ToSearchResult info \<notin> set rs"
  proof
    assume "ToSearchResult info \<in> set rs"
    with h have "MovieSearchResult_Valid e (ToSearchResult info)"
      using SearchMovieAll_valid by blast
    with h show False
      by (auto simp: MovieSearchResult_Valid_def ToSearchResult_def)
  qed
qed

theorem invalid_info_never_stored_witness:
  "\<not> MovieInfo_Valid demoEngine badInfo \<and> Number badInfo = [] \<and>
   fst (GetMovieInfoByID demoEngine ''BAD'' ''F'' False emptyWorld) = Inr badInfo \<and>
   badInfo \<notin> set (rows (snd (GetMovieInfoByID demoEngine ''BAD'' ''F'' False emptyWorld))) \<and>
   badInfo \<notin> set (rows (snd (SearchMovie demoEngine ''BAD'' ''F'' False emptyWorld))) \<and>
   badInfo \<notin> set (rows (snd (SearchMovieAll demoEngine ''BAD'' False emptyWorld))) \<and>
   fst (SearchMovieAll demoEngine ''BAD'' False emptyWorld) = Returns [hitA] \<and>
   ToSearchResult badInfo \<notin> set [hitA]"
proof -
  have v: "\<not> MovieInfo_Valid demoEngine badInfo" and b: "Number badInfo = []"
    by (simp_all add: badInfo_def MovieInfo_Valid_def)
  have kw: "Trim demoEngine ''BAD'' = ''BAD''"
    by (simp add: demoEngine_def trimSpaces_def)
  have p: "map_of (movieProviders demoEngine) ''F'' = Some provF"
    and ps: "map snd (movieProviders demoEngine) = [provA, provB, provF]"
    by (simp_all add: demoEngine_def)
  have fetch: "getMovieInfoByID demoEngine ''BAD'' provF lazy w =
      (Inr badInfo,
       w\<lparr>trace := trace w @ NormalizeIDCall ''F'' ''BAD'' #
            (if lazy then [DbFirstByID ''BAD'' ''F''] else []) @
            [GetMovieInfoByIDCall ''F'' ''BAD'']\<rparr>)"
    if "rows w = []" for lazy w
    using that v
    by (simp add: getMovieInfoByID_def fetchAndSave_def dbFirstByID_def provF_def emit_def Let_def)
  have a: "searchMovie demoEngine ''BAD'' provA False w =
      (Inr [hitA], emit (SearchMovieCall ''A'' ''BAD'') w)" for w
    by (simp add: searchMovie_def callSearcher_def provA_def)
  have bb: "searchMovie demoEngine ''BAD'' provB False w =
      (Inl (ProviderError ''timeout''), emit (SearchMovieCall ''B'' ''BAD'') w)" for w
    by (simp add: searchMovie_def callSearcher_def provB_def)
  have f: "searchMovie demoEngine ''BAD'' provF False w =
      (Inr [ToSearchResult badInfo],
       w\<lparr>trace := trace w @ [NormalizeIDCall ''F'' ''BAD'', DbFirstByID ''BAD'' ''F'',
                            GetMovieInfoByIDCall ''F'' ''BAD'']\<rparr>)"
    if "rows w = []" for w
    using fetch [OF that, of True] by (simp add: searchMovie_def provF_def)
  have run: "fst (searchMovieAll demoEngine ''BAD'' emptyWorld) = [hitA, ToSearchResult badInfo]"
    by (simp add: searchMovieAll_def ps a bb f emit_def emptyWorld_def)
  have rank: "deferred demoEngine ''BAD'' [hitA, ToSearchResult badInfo] None = Returns [hitA]"
    by (simp add: deferred_def MovieSearchResult_Valid_def ToSearchResult_def badInfo_def
        hitA_def demoEngine_def Sort_def Underlying_def)
  have all: "fst (SearchMovieAll demoEngine ''BAD'' False emptyWorld) = Returns [hitA]"
    using run rank kw
    by (cases "searchMovieAll demoEngine ''BAD'' emptyWorld") (simp add: SearchMovieAll_def)
  have one: "fst (GetMovieInfoByID demoEngine ''BAD'' ''F'' False emptyWorld) = Inr badInfo"
    using fetch [of emptyWorld False] p by (simp add: GetMovieInfoByID_def emptyWorld_def)
  have none: "badInfo \<notin> set (rows emptyWorld)"
    by (simp add: emptyWorld_def)
  note inst = invalid_info_never_stored [of demoEngine "''BAD''" "''F''" False emptyWorld "''BAD''"]
  from inst v none
  have "badInfo \<notin> set (rows (snd (GetMovieInfoByID demoEngine ''BAD'' ''F'' False emptyWorld)))"
    and "badInfo \<notin> set (rows (snd (SearchMovie demoEngine ''BAD'' ''F'' False emptyWorld)))"
    and "badInfo \<notin> set (rows (snd (SearchMovieAll demoEngine ''BAD'' False emptyWorld)))"
    by blast+
  moreover from inst all b have "ToSearchResult badInfo \<notin> set [hitA]"
    by blast
  ultimately show ?thesis using v b one all by simp
qed

end
